theory Spec2Isabelle
  imports Main "HOL-Library.AList" "HOL-Library.Word"
begin

section \<open>Python values used by main.py\<close>

text \<open>
  A Python \<^verbatim>\<open>str\<close> is modelled by its text as a HOL string.  The program compares
  strings, tests them for emptiness, joins them and looks for the ASCII text
  \<^verbatim>\<open>attachment\<close> in them, and all of that reads the same on the text.  What it does
  beyond that is call three methods of the library, \<^verbatim>\<open>lower\<close>, \<^verbatim>\<open>upper\<close> and
  \<^verbatim>\<open>strip\<close>; these follow the Unicode tables and are not part of the program, so
  they are parameters of everything that calls them.
\<close>

record str_methods =
  str_lower :: "string \<Rightarrow> string"
  str_upper :: "string \<Rightarrow> string"
  str_strip :: "string \<Rightarrow> string"

text \<open>
  What the three methods do on ASCII text (whitespace there is 0x09-0x0D, 0x1C-0x1F and
  the blank).  This instance runs the examples, whose strings are all ASCII.
\<close>

definition is_space :: "char \<Rightarrow> bool" where
  "is_space c = (let n = (of_char c :: nat) in (9 \<le> n \<and> n \<le> 13) \<or> (28 \<le> n \<and> n \<le> 32))"

definition lower_char :: "char \<Rightarrow> char" where
  "lower_char c = (let n = (of_char c :: nat) in if 65 \<le> n \<and> n \<le> 90 then char_of (n + 32) else c)"

definition upper_char :: "char \<Rightarrow> char" where
  "upper_char c = (let n = (of_char c :: nat) in if 97 \<le> n \<and> n \<le> 122 then char_of (n - 32) else c)"

definition ascii_lower :: "string \<Rightarrow> string" where
  "ascii_lower s = map lower_char s"

definition ascii_upper :: "string \<Rightarrow> string" where
  "ascii_upper s = map upper_char s"

definition ascii_strip :: "string \<Rightarrow> string" where
  "ascii_strip s = rev (dropWhile is_space (rev (dropWhile is_space s)))"

definition ascii_str :: str_methods where
  "ascii_str = \<lparr>str_lower = ascii_lower, str_upper = ascii_upper, str_strip = ascii_strip\<rparr>"

text \<open>
  Truthiness of an optional string: \<^verbatim>\<open>None\<close> and the empty string are both false.
  This is the test behind \<^verbatim>\<open>if account_id:\<close>, \<^verbatim>\<open>if sender_email:\<close> and
  \<^verbatim>\<open>if filename:\<close>.
\<close>

fun truthy :: "string option \<Rightarrow> bool" where
  "truthy None = False"
| "truthy (Some s) = (s \<noteq> [])"

text \<open>JSON documents: the request and response bodies the program builds.\<close>

datatype json =
    JNull
  | JBool bool
  | JInt int
  | JStr string
  | JList "json list"
  | JObj "(string \<times> json) list"

text \<open>The single quote of the f-strings that put an identifier in quotes.\<close>

definition quote :: "string \<Rightarrow> string" where
  "quote s = [CHR 0x27] @ s @ [CHR 0x27]"

section \<open>The account registry: class BrityworksAccountManager\<close>

text \<open>
  An account is the dictionary with the five keys that \<^verbatim>\<open>_create_default_config\<close>
  writes and that \<^verbatim>\<open>AccountCreate\<close> requires.  The cookie and header bundles are
  opaque to the program.
\<close>

record account =
  account_id :: string
  email :: string
  display_name :: string
  cookies :: "(string \<times> string) list"
  headers :: "(string \<times> string) list"

text \<open>
  \<^verbatim>\<open>self.accounts\<close> is a Python dict, which keeps insertion order: an association
  list whose keys are distinct.  \<^verbatim>\<open>d[k] = v\<close> is \<^const>\<open>AList.update\<close> (in place when
  the key is there, at the end otherwise), \<^verbatim>\<open>del d[k]\<close> is \<^const>\<open>AList.delete\<close>,
  \<^verbatim>\<open>d.get(k)\<close> is \<^const>\<open>map_of\<close>, \<^verbatim>\<open>list(d.keys())\<close> is \<open>map fst\<close>.
  \<^verbatim>\<open>self.selected_accounts\<close> is a Python list: \<^verbatim>\<open>remove\<close> deletes the first
  occurrence only (\<^const>\<open>remove1\<close>).
\<close>

record BrityworksAccountManager =
  accounts :: "(string \<times> account) list"
  selected_accounts :: "string list"

definition dict_wf :: "('k \<times> 'v) list \<Rightarrow> bool" where
  "dict_wf d = distinct (map fst d)"

definition has_key :: "('k \<times> 'v) list \<Rightarrow> 'k \<Rightarrow> bool" where
  "has_key d k = (k \<in> set (map fst d))"

definition set_selected_accounts ::
  "BrityworksAccountManager \<Rightarrow> string list \<Rightarrow> bool \<times> BrityworksAccountManager" where
  "set_selected_accounts self account_ids =
     (if account_ids = [] then
        (True, self\<lparr>selected_accounts := map fst (accounts self)\<rparr>)
      else
        (let valid_accounts = filter (has_key (accounts self)) account_ids in
         if valid_accounts = [] then (False, self)
         else (True, self\<lparr>selected_accounts := valid_accounts\<rparr>)))"

text \<open>
  The loop of \<^verbatim>\<open>get_account_by_email\<close> over the selected identifiers; the first
  account whose normalised address equals the normalised sender is returned.
\<close>

fun match_email :: "str_methods \<Rightarrow> (string \<times> account) list \<Rightarrow> string \<Rightarrow> string list \<Rightarrow> account option" where
  "match_email py d sender_email_lower [] = None"
| "match_email py d sender_email_lower (aid # rest) =
     (case map_of d aid of
        None \<Rightarrow> match_email py d sender_email_lower rest
      | Some acct \<Rightarrow>
          if str_strip py (str_lower py (email acct)) = sender_email_lower then Some acct
          else match_email py d sender_email_lower rest)"

definition get_account_by_email ::
  "str_methods \<Rightarrow> BrityworksAccountManager \<Rightarrow> string option \<Rightarrow> account option" where
  "get_account_by_email py self sender_email =
     (if \<not> truthy sender_email then None
      else match_email py (accounts self) (str_strip py (str_lower py (the sender_email)))
             (selected_accounts self))"

definition get_all_selected_accounts :: "BrityworksAccountManager \<Rightarrow> account list" where
  "get_all_selected_accounts self =
     List.map_filter (map_of (accounts self)) (selected_accounts self)"

definition get_selected_account ::
  "str_methods \<Rightarrow> BrityworksAccountManager \<Rightarrow> string option \<Rightarrow> string option \<Rightarrow> account option" where
  "get_selected_account py self aid sender_email =
     (if truthy aid then
        (if the aid \<in> set (selected_accounts self) then map_of (accounts self) (the aid)
         else None)
      else
        (case (if truthy sender_email then get_account_by_email py self sender_email else None) of
           Some acct \<Rightarrow> Some acct
         | None \<Rightarrow>
             (case selected_accounts self of
                [] \<Rightarrow> None
              | fallback_account_id # _ \<Rightarrow> map_of (accounts self) fallback_account_id)))"

text \<open>The invariant of the data model: every selected identifier is configured.\<close>

definition active_subset :: "BrityworksAccountManager \<Rightarrow> bool" where
  "active_subset self = (set (selected_accounts self) \<subseteq> set (map fst (accounts self)))"

section \<open>The administrative endpoints\<close>

text \<open>
  The process state the endpoints share: the global \<^verbatim>\<open>account_manager\<close> (\<^verbatim>\<open>None\<close>
  until the start-up code has built it) and the configuration store on disk.  Writing
  the store can fail; \<^verbatim>\<open>save_accounts\<close> catches every exception of the write and
  returns \<^verbatim>\<open>False\<close>, and since it writes a temporary file and renames it, a failed
  write leaves \<^verbatim>\<open>accounts.json\<close> as it was.
\<close>

record disk =
  writable :: bool
  config_file :: "account list option"

record world =
  account_manager :: "BrityworksAccountManager option"
  store :: disk

definition save_accounts :: "BrityworksAccountManager \<Rightarrow> disk \<Rightarrow> bool \<times> disk" where
  "save_accounts self d =
     (if writable d then (True, d\<lparr>config_file := Some (map snd (accounts self))\<rparr>)
      else (False, d))"

datatype http_error = HTTPException (status_code: nat) (detail: string)

definition persist :: "world \<Rightarrow> BrityworksAccountManager \<Rightarrow> json \<Rightarrow> (http_error + json) \<times> world" where
  \<comment> \<open>the tail shared by create, update and delete: save, then answer\<close>
  "persist w am ok_body =
     (case save_accounts am (store w) of
        (saved, d) \<Rightarrow>
          (if \<not> saved then Inl (HTTPException 500 ''Failed to persist account configuration'')
           else Inr ok_body,
           \<lparr>account_manager = Some am, store = d\<rparr>))"

definition not_initialized :: http_error where
  "not_initialized = HTTPException 500 ''Account manager not initialized''"

definition not_found :: "string \<Rightarrow> http_error" where
  "not_found aid = HTTPException 404 (''Account '' @ quote aid @ '' not found'')"

definition get_account :: "world \<Rightarrow> string \<Rightarrow> http_error + json" where
  "get_account w aid =
     (case account_manager w of
        None \<Rightarrow> Inl not_initialized
      | Some am \<Rightarrow>
          (case map_of (accounts am) aid of
             None \<Rightarrow> Inl (not_found aid)
           | Some acct \<Rightarrow>
               Inr (JObj [(''account_id'', JStr aid),
                          (''email'', JStr (email acct)),
                          (''display_name'', JStr (display_name acct)),
                          (''is_selected'', JBool (aid \<in> set (selected_accounts am))),
                          (''has_cookies'', JBool (cookies acct \<noteq> [])),
                          (''has_headers'', JBool (headers acct \<noteq> []))])))"

definition create_account :: "world \<Rightarrow> account \<Rightarrow> (http_error + json) \<times> world" where
  "create_account w acct =
     (case account_manager w of
        None \<Rightarrow> (Inl not_initialized, w)
      | Some am \<Rightarrow>
          if has_key (accounts am) (account_id acct) then
            (Inl (HTTPException 400 (''Account '' @ quote (account_id acct) @ '' already exists'')), w)
          else
            (let new_account = \<lparr>account_id = account_id acct, email = email acct,
                                display_name = display_name acct, cookies = cookies acct,
                                headers = headers acct\<rparr>;
                 am1 = am\<lparr>accounts := AList.update (account_id acct) new_account (accounts am)\<rparr>
             in persist w am1
                  (JObj [(''message'', JStr ''Account created successfully''),
                         (''account_id'', JStr (account_id acct))])))"

definition update_account :: "world \<Rightarrow> string \<Rightarrow> account \<Rightarrow> (http_error + json) \<times> world" where
  "update_account w aid acct =
     (case account_manager w of
        None \<Rightarrow> (Inl not_initialized, w)
      | Some am \<Rightarrow>
          if \<not> has_key (accounts am) aid then (Inl (not_found aid), w)
          else
            (let updated_account = \<lparr>account_id = account_id acct, email = email acct,
                                    display_name = display_name acct, cookies = cookies acct,
                                    headers = headers acct\<rparr>;
                 am1 = (if aid \<noteq> account_id acct then
                          am\<lparr>accounts := AList.delete aid (accounts am),
                             selected_accounts :=
                               (if aid \<in> set (selected_accounts am)
                                then remove1 aid (selected_accounts am) @ [account_id acct]
                                else selected_accounts am)\<rparr>
                        else am);
                 am2 = am1\<lparr>accounts := AList.update (account_id acct) updated_account (accounts am1)\<rparr>
             in persist w am2
                  (JObj [(''message'', JStr ''Account updated successfully''),
                         (''account_id'', JStr (account_id acct))])))"

definition delete_account :: "world \<Rightarrow> string \<Rightarrow> (http_error + json) \<times> world" where
  "delete_account w aid =
     (case account_manager w of
        None \<Rightarrow> (Inl not_initialized, w)
      | Some am \<Rightarrow>
          if \<not> has_key (accounts am) aid then (Inl (not_found aid), w)
          else
            (let am1 = am\<lparr>accounts := AList.delete aid (accounts am)\<rparr>;
                 am2 = (if aid \<in> set (selected_accounts am1)
                        then am1\<lparr>selected_accounts := remove1 aid (selected_accounts am1)\<rparr>
                        else am1)
             in persist w am2
                  (JObj [(''message'', JStr ''Account deleted successfully''),
                         (''account_id'', JStr aid)])))"

definition select_account :: "world \<Rightarrow> string \<Rightarrow> (http_error + json) \<times> world" where
  "select_account w aid =
     (case account_manager w of
        None \<Rightarrow> (Inl not_initialized, w)
      | Some am \<Rightarrow>
          if \<not> has_key (accounts am) aid then (Inl (not_found aid), w)
          else
            (let am1 = (if aid \<notin> set (selected_accounts am)
                        then am\<lparr>selected_accounts := selected_accounts am @ [aid]\<rparr>
                        else am)
             in (Inr (JObj [(''message'', JStr ''Account selected''), (''account_id'', JStr aid)]),
                 w\<lparr>account_manager := Some am1\<rparr>)))"

definition deselect_account :: "world \<Rightarrow> string \<Rightarrow> (http_error + json) \<times> world" where
  "deselect_account w aid =
     (case account_manager w of
        None \<Rightarrow> (Inl not_initialized, w)
      | Some am \<Rightarrow>
          if \<not> has_key (accounts am) aid then (Inl (not_found aid), w)
          else
            (let am1 = (if aid \<in> set (selected_accounts am)
                        then am\<lparr>selected_accounts := remove1 aid (selected_accounts am)\<rparr>
                        else am)
             in (Inr (JObj [(''message'', JStr ''Account deselected''), (''account_id'', JStr aid)]),
                 w\<lparr>account_manager := Some am1\<rparr>)))"

section \<open>Parsed messages and attachment extraction\<close>

text \<open>
  What \<^verbatim>\<open>email.parser.Parser().parsestr\<close> returns, as far as the handler looks at it:
  a tree of parts.  Each part has its headers, the answer of \<^verbatim>\<open>get_filename()\<close>, and
  either a payload (kept here as the bytes that \<^verbatim>\<open>get_payload(decode=True)\<close> yields,
  that is, after undoing the transfer encoding) or a list of sub-parts.  A part whose
  payload is a list is what \<^verbatim>\<open>is_multipart()\<close> calls multipart; besides the
  \<^verbatim>\<open>multipart/*\<close> types this is every \<^verbatim>\<open>message/rfc822\<close> part, whose payload is
  the list holding the enclosed message.
\<close>

type_synonym byte = "8 word"

datatype message =
    Leaf (msg_headers: "(string \<times> string) list") (get_filename: "string option")
         (decoded_payload: "byte list")
  | Multipart (msg_headers: "(string \<times> string) list") (get_filename: "string option")
         (subparts: "message list")

fun is_multipart :: "message \<Rightarrow> bool" where
  "is_multipart (Leaf h f b) = False"
| "is_multipart (Multipart h f ps) = True"

text \<open>\<^verbatim>\<open>get_payload(decode=True)\<close>: the library returns \<^verbatim>\<open>None\<close> for a multipart part.\<close>

fun get_payload_decode :: "message \<Rightarrow> byte list option" where
  "get_payload_decode (Leaf h f b) = Some b"
| "get_payload_decode (Multipart h f ps) = None"

text \<open>\<^verbatim>\<open>walk()\<close>: the part itself, then the walk of each sub-part, depth first.\<close>

fun walk :: "message \<Rightarrow> message list" where
  "walk (Leaf h f b) = [Leaf h f b]"
| "walk (Multipart h f ps) = Multipart h f ps # concat (map walk ps)"

text \<open>\<^verbatim>\<open>msg.get(name)\<close>: the first header whose name matches, whatever the case.\<close>

definition msg_get :: "str_methods \<Rightarrow> message \<Rightarrow> string \<Rightarrow> string option" where
  "msg_get py m name =
     map_of (map (\<lambda>(k, v). (str_lower py k, v)) (msg_headers m)) (str_lower py name)"

text \<open>The substring test \<^verbatim>\<open>needle in haystack\<close>.\<close>

fun starts_with :: "string \<Rightarrow> string \<Rightarrow> bool" where
  "starts_with [] s = True"
| "starts_with (c # cs) [] = False"
| "starts_with (c # cs) (d # ds) = (c = d \<and> starts_with cs ds)"

fun contains :: "string \<Rightarrow> string \<Rightarrow> bool" where
  "contains needle [] = (needle = [])"
| "contains needle (c # cs) = (starts_with needle (c # cs) \<or> contains needle cs)"

text \<open>
  \<^verbatim>\<open>base64.b64encode\<close> followed by \<^verbatim>\<open>.decode('utf-8')\<close>: three bytes become four
  characters of the standard alphabet, and a last group of one or two bytes is padded
  with \<^verbatim>\<open>=\<close>.
\<close>

definition b64_char :: "nat \<Rightarrow> char" where
  "b64_char n =
     (if n < 26 then char_of (n + 65)
      else if n < 52 then char_of (n + 71)
      else if n < 62 then char_of (n - 4)
      else if n = 62 then CHR ''+'' else CHR ''/'')"

fun b64encode :: "byte list \<Rightarrow> string" where
  "b64encode [] = []"
| "b64encode [a] =
     [b64_char (unat a div 4), b64_char (unat a mod 4 * 16), CHR ''='', CHR ''='']"
| "b64encode [a, b] =
     [b64_char (unat a div 4), b64_char (unat a mod 4 * 16 + unat b div 16),
      b64_char (unat b mod 16 * 4), CHR ''='']"
| "b64encode (a # b # c # rest) =
     [b64_char (unat a div 4), b64_char (unat a mod 4 * 16 + unat b div 16),
      b64_char (unat b mod 16 * 4 + unat c div 64), b64_char (unat c mod 64)]
     @ b64encode rest"



text \<open>
  The attachment loop of \<^verbatim>\<open>handle_DATA\<close>.  \<^verbatim>\<open>str(part.get("Content-Disposition"))\<close>
  is the text \<^verbatim>\<open>None\<close> when the header is missing.  \<^verbatim>\<open>base64.b64encode(None)\<close>
  raises \<^verbatim>\<open>TypeError\<close>, and nothing in the handler catches it.
\<close>

datatype py_error = TypeError

record attachment =
  filename :: string
  content :: string

fun extract_attachments ::
  "str_methods \<Rightarrow> message list \<Rightarrow> attachment list \<Rightarrow> py_error + attachment list" where
  "extract_attachments py [] attachments = Inr attachments"
| "extract_attachments py (part # rest) attachments =
     (let cdispo = (case msg_get py part ''Content-Disposition'' of None \<Rightarrow> ''None'' | Some v \<Rightarrow> v) in
      if contains ''attachment'' cdispo then
        (if truthy (get_filename part) then
           (case get_payload_decode part of
              None \<Rightarrow> Inl TypeError
            | Some attachment_content_bytes \<Rightarrow>
                extract_attachments py rest
                  (attachments @ [\<lparr>filename = the (get_filename part),
                                   content = b64encode attachment_content_bytes\<rparr>]))
         else extract_attachments py rest attachments)
      else extract_attachments py rest attachments)"

text \<open>The handler runs the loop on multipart messages only, and on the whole walk.\<close>

definition message_attachments :: "str_methods \<Rightarrow> message \<Rightarrow> py_error + attachment list" where
  "message_attachments py msg =
     (if is_multipart msg then extract_attachments py (walk msg) [] else Inr [])"

text \<open>The two tests a part has to pass to be recorded.\<close>

definition is_attachment :: "str_methods \<Rightarrow> message \<Rightarrow> bool" where
  "is_attachment py part =
     (contains ''attachment''
        (case msg_get py part ''Content-Disposition'' of None \<Rightarrow> ''None'' | Some v \<Rightarrow> v)
      \<and> truthy (get_filename part))"

text \<open>
  Following the spec's words: the disposition metadata of a part indicates an
  attachment when the disposition type of its \<^verbatim>\<open>Content-Disposition\<close> header, which
  is the text before the first semicolon, trimmed and read without regard to case, is
  \<^verbatim>\<open>attachment\<close>.
\<close>

definition disposition_type :: "str_methods \<Rightarrow> string \<Rightarrow> string" where
  "disposition_type py v = str_lower py (str_strip py (takeWhile (\<lambda>c. c \<noteq> CHR 0x3B) v))"

definition indicates_attachment :: "str_methods \<Rightarrow> message \<Rightarrow> bool" where
  "indicates_attachment py part =
     (case msg_get py part ''Content-Disposition'' of
        None \<Rightarrow> False
      | Some v \<Rightarrow> disposition_type py v = ''attachment'')"



section \<open>The forwarding endpoint\<close>

record ParsedEmailPayload =
  raw_email :: string
  sender_email :: string
  recipient_email :: string
  subject :: string
  requested_account_id :: "string option"
  attachments :: "attachment list"

text \<open>
  What an HTTP request made through \<^verbatim>\<open>httpx\<close> comes to once \<^verbatim>\<open>raise_for_status\<close>
  has run: a response that passed (status and body), an \<^verbatim>\<open>HTTPStatusError\<close> (status
  and text), a \<^verbatim>\<open>RequestError\<close>, or any other exception.
\<close>

datatype http_outcome =
    Response nat json
  | HTTPStatusError nat string
  | RequestError string
  | OtherException string

definition attachment_json :: "attachment \<Rightarrow> json" where
  "attachment_json a = JObj [(''filename'', JStr (filename a)), (''content'', JStr (content a))]"

text \<open>The dictionary \<^verbatim>\<open>brittymail_json_data\<close> of \<^verbatim>\<open>forward_email_to_brittymail\<close>.\<close>

definition brittymail_json_data :: "ParsedEmailPayload \<Rightarrow> json" where
  "brittymail_json_data payload =
     JObj [
       (''priority'', JStr ''3''),
       (''docSecuType'', JStr ''PERSONAL''),
       (''demandReply'', JBool False),
       (''senderEngExprYN'', JBool True),
       (''openAlert'', JBool False),
       (''openAlertTargets'', JList []),
       (''deleteSecurityPhrase'', JBool False),
       (''cpgsPassed'', JBool False),
       (''originalFolderID'', JInt 0),
       (''originalMailSeq'', JInt 0),
       (''preMailSeq'', JInt 0),
       (''processCode'', JStr ''NONE''),
       (''preFolderID'', JInt 0),
       (''contentText'', JStr (raw_email payload)),
       (''contentType'', JStr ''MIME''),
       (''individualMail'', JBool False),
       (''isConfidentialExtMail'', JBool False),
       (''topMailID'', JNull),
       (''originalMessageID'', JNull),
       (''from'', JObj [
          (''email'', JStr (sender_email payload)),
          (''dcomp'', JStr ''O''),
          (''userID'', JStr (sender_email payload)),
          (''sendrIndiVal'', JStr (sender_email payload @ ''<'' @ sender_email payload @ ''>''))]),
       (''attachs'', JList (map attachment_json (attachments payload))),
       (''subject'', JStr (subject payload)),
       (''recipients'', JList [
          JObj [
            (''email'', JStr (recipient_email payload)),
            (''recipientType'', JStr ''TO''),
            (''directKeyin'', JBool False),
            (''rcvrName'', JStr (recipient_email payload)),
            (''displayName'', JStr (recipient_email payload))]]),
       (''nonEncMail'', JBool False),
       (''disabledMailOption'', JObj [
          (''disabledConfidential'', JBool False),
          (''disabledConfidential_Strict'', JBool False)]),
       (''approvalList'', JList [])]"

text \<open>
  The endpoint.  The vendor is a parameter: what the POST to the send URL, with the
  account's cookies and headers, comes to.
\<close>

type_synonym vendor = "(string \<times> string) list \<Rightarrow> (string \<times> string) list \<Rightarrow> json \<Rightarrow> http_outcome"

definition forward_email_to_brittymail ::
  "str_methods \<Rightarrow> vendor \<Rightarrow> BrityworksAccountManager \<Rightarrow> ParsedEmailPayload \<Rightarrow> http_error + json"
  where
  "forward_email_to_brittymail py vendor_post am payload =
     (case get_selected_account py am (requested_account_id payload) (Some (sender_email payload)) of
        None \<Rightarrow>
          Inl (HTTPException 400 (''No matching account found for sender: '' @ sender_email payload))
      | Some acct \<Rightarrow>
          (case vendor_post (cookies acct) (headers acct) (brittymail_json_data payload) of
             Response code body \<Rightarrow>
               Inr (JObj [(''message'', JStr ''Email forwarded successfully!''),
                          (''brittymail_response'', body)])
           | HTTPStatusError code text \<Rightarrow>
               Inl (HTTPException 500 (''Failed to forward email to Brittymail: '' @ text))
           | RequestError e \<Rightarrow>
               Inl (HTTPException 500 (''Network error forwarding email to Brittymail: '' @ e))
           | OtherException e \<Rightarrow>
               Inl (HTTPException 500 (''An internal server error occurred: '' @ e))))"


section \<open>The SMTP handler: CustomSMTPHandler.handle_DATA\<close>

record envelope =
  mail_from :: "string option"
  rcpt_tos :: "string list"
  envelope_content :: "byte list"

text \<open>
  The collaborators of the handler that are not in this repository: the UTF-8 decoder
  (\<^verbatim>\<open>errors='ignore'\<close>, so it always returns), the mail parser, and the HTTP client
  posting to the internal URL.  The client's answer may differ from one request to the
  next, so it is given the number of requests already made.
\<close>

record runtime =
  decode_utf8 :: "byte list \<Rightarrow> string"
  parsestr :: "string \<Rightarrow> message"
  client_post :: "nat \<Rightarrow> ParsedEmailPayload \<Rightarrow> http_outcome"

record delivery =
  requests :: "ParsedEmailPayload list"
  success_count :: nat
  failed_count :: nat

definition fastapi_payload ::
  "string \<Rightarrow> string \<Rightarrow> string \<Rightarrow> attachment list \<Rightarrow> account \<Rightarrow> ParsedEmailPayload" where
  "fastapi_payload raw_email_str recipient subj atts acct =
     \<lparr>raw_email = raw_email_str,
      sender_email = email acct,
      recipient_email = recipient,
      subject = subj,
      requested_account_id = Some (account_id acct),
      attachments = atts\<rparr>"

text \<open>
  The loop over \<^verbatim>\<open>accounts_to_use\<close>: one request per account, and each of the
  three \<^verbatim>\<open>except\<close> clauses counts a failure and goes on.
\<close>

fun send_each ::
  "(nat \<Rightarrow> ParsedEmailPayload \<Rightarrow> http_outcome) \<Rightarrow> (account \<Rightarrow> ParsedEmailPayload) \<Rightarrow>
   account list \<Rightarrow> delivery \<Rightarrow> delivery" where
  "send_each post build [] d = d"
| "send_each post build (acct # rest) d =
     (let payload = build acct in
      case post (length (requests d)) payload of
        Response code body \<Rightarrow>
          send_each post build rest
            (d\<lparr>requests := requests d @ [payload], success_count := success_count d + 1\<rparr>)
      | HTTPStatusError code text \<Rightarrow>
          send_each post build rest
            (d\<lparr>requests := requests d @ [payload], failed_count := failed_count d + 1\<rparr>)
      | RequestError e \<Rightarrow>
          send_each post build rest
            (d\<lparr>requests := requests d @ [payload], failed_count := failed_count d + 1\<rparr>)
      | OtherException e \<Rightarrow>
          send_each post build rest
            (d\<lparr>requests := requests d @ [payload], failed_count := failed_count d + 1\<rparr>))"

text \<open>
  Following the spec (4.2, fan-out and send): with the directive \<open>ALL\<close> the account
  list is every active account; otherwise it is the one account that the resolution
  by explicit identifier and sender returns, or empty when the resolution fails.
\<close>

definition resolved_accounts ::
  "str_methods \<Rightarrow> BrityworksAccountManager \<Rightarrow> string option \<Rightarrow> string \<Rightarrow> account list" where
  "resolved_accounts py am directive sender =
     (if truthy directive \<and> str_upper py (the directive) = ''ALL''
      then get_all_selected_accounts am
      else (case get_selected_account py am directive (Some sender) of
              None \<Rightarrow> []
            | Some acct \<Rightarrow> [acct]))"

fun succeeded :: "http_outcome \<Rightarrow> bool" where
  "succeeded (Response code body) = True"
| "succeeded _ = False"

text \<open>
  The sender and the recipient come from the envelope, the subject from the headers,
  each with its placeholder.
\<close>

definition effective_sender :: "envelope \<Rightarrow> string" where
  "effective_sender env =
     (if truthy (mail_from env) then the (mail_from env) else ''unknown_sender@example.com'')"

definition effective_recipient :: "envelope \<Rightarrow> string" where
  "effective_recipient env =
     (case rcpt_tos env of [] \<Rightarrow> ''unknown_recipient@example.com'' | r # _ \<Rightarrow> r)"

definition message_subject :: "str_methods \<Rightarrow> message \<Rightarrow> string" where
  "message_subject py msg =
     (case msg_get py msg ''Subject'' of None \<Rightarrow> ''No Subject'' | Some v \<Rightarrow> v)"

text \<open>
  The handler returns its reply to the SMTP server; the requests it made and the two
  counters it logs are returned with it.  An exception of the attachment loop leaves
  the handler before any account is looked up.
\<close>

definition handle_DATA ::
  "str_methods \<Rightarrow> runtime \<Rightarrow> BrityworksAccountManager \<Rightarrow> envelope \<Rightarrow>
   py_error + (string \<times> delivery)" where
  "handle_DATA py rt am env =
     (let raw_email_str = decode_utf8 rt (envelope_content env);
          msg = parsestr rt raw_email_str;
          sender = effective_sender env;
          recipient = effective_recipient env;
          subj = message_subject py msg;
          aid = msg_get py msg ''X-Brityworks-Account'';
          send_from_all = (truthy aid \<and> str_upper py (the aid) = ''ALL'')
      in
      case message_attachments py msg of
        Inl e \<Rightarrow> Inl e
      | Inr atts \<Rightarrow>
          (let accounts_to_use =
                 (if send_from_all then get_all_selected_accounts am
                  else (case get_selected_account py am aid (Some sender) of
                          None \<Rightarrow> [] | Some single_account \<Rightarrow> [single_account]))
           in
           if accounts_to_use = [] then
             Inr (''250 OK'', \<lparr>requests = [], success_count = 0, failed_count = 0\<rparr>)
           else
             Inr (''250 OK'',
                  send_each (client_post rt) (fastapi_payload raw_email_str recipient subj atts)
                    accounts_to_use \<lparr>requests = [], success_count = 0, failed_count = 0\<rparr>)))"

section \<open>Example registries and messages\<close>

definition acct_a :: account where
  "acct_a = \<lparr>account_id = ''a'', email = ''a@x.com'', display_name = ''Account A'',
             cookies = [(''SCOUTER'', ''x1'')], headers = [(''accept'', ''application/json'')]\<rparr>"

definition acct_b :: account where
  "acct_b = \<lparr>account_id = ''b'', email = ''B@x.com '', display_name = ''Account B'',
             cookies = [(''SCOUTER'', ''x2'')], headers = [(''accept'', ''application/json'')]\<rparr>"

definition acct_c :: account where
  "acct_c = \<lparr>account_id = ''c'', email = ''c@x.com'', display_name = ''Account C'',
             cookies = [], headers = []\<rparr>"

definition registry_ab :: BrityworksAccountManager where
  "registry_ab = \<lparr>accounts = [(''a'', acct_a), (''b'', acct_b)], selected_accounts = [''a'', ''b'']\<rparr>"

definition registry_abc :: BrityworksAccountManager where
  "registry_abc = \<lparr>accounts = [(''a'', acct_a), (''b'', acct_b), (''c'', acct_c)],
                   selected_accounts = [''a'', ''b'', ''c'']\<rparr>"

definition good_disk :: disk where
  "good_disk = \<lparr>writable = True, config_file = None\<rparr>"

definition bad_disk :: disk where
  "bad_disk = \<lparr>writable = False, config_file = Some [acct_a, acct_b]\<rparr>"

definition acct_foo :: account where
  "acct_foo = \<lparr>account_id = ''f'', email = ''FOO@bar.COM  '', display_name = ''Foo'',
               cookies = [], headers = []\<rparr>"

definition registry_foo :: BrityworksAccountManager where
  "registry_foo = \<lparr>accounts = [(''a'', acct_a), (''f'', acct_foo)],
                   selected_accounts = [''a'', ''f'']\<rparr>"

definition acct_blank :: account where
  "acct_blank = \<lparr>account_id = ''n'', email = '''', display_name = ''No address'',
                 cookies = [], headers = []\<rparr>"

definition registry_blank :: BrityworksAccountManager where
  "registry_blank = \<lparr>accounts = [(''a'', acct_a), (''n'', acct_blank)],
                     selected_accounts = [''a'', ''n'']\<rparr>"

definition acct_a_as_b :: account where
  "acct_a_as_b = \<lparr>account_id = ''b'', email = ''a@x.com'', display_name = ''Account A'',
                  cookies = [(''SCOUTER'', ''x1'')], headers = [(''accept'', ''application/json'')]\<rparr>"

definition world_ab :: world where
  "world_ab = \<lparr>account_manager = Some registry_ab, store = good_disk\<rparr>"

definition world_ab_readonly :: world where
  "world_ab_readonly = \<lparr>account_manager = Some registry_ab, store = bad_disk\<rparr>"

definition inline_part :: message where
  "inline_part = Leaf [(''Content-Type'', ''text/plain''), (''Content-Disposition'', ''inline'')]
                      None [104, 101, 108, 108, 111]"




definition forwarded_part :: message where
  "forwarded_part = Multipart [(''Content-Type'', ''message/rfc822''),
                               (''Content-Disposition'', ''attachment; filename=fwd.eml'')]
                              (Some ''fwd.eml'')
                              [Leaf [(''Subject'', ''inner'')] None [98, 111, 100, 121]]"

definition forwarding_message :: message where
  "forwarding_message = Multipart [(''Subject'', ''Fwd''), (''Content-Type'', ''multipart/mixed'')]
                                  None [inline_part, forwarded_part]"

definition latin1 :: "byte list \<Rightarrow> string" where
  "latin1 bs = map (\<lambda>b. char_of (unat b)) bs"

definition runtime_for :: "message \<Rightarrow> (nat \<Rightarrow> ParsedEmailPayload \<Rightarrow> http_outcome) \<Rightarrow> runtime" where
  "runtime_for msg post = \<lparr>decode_utf8 = latin1, parsestr = (\<lambda>raw. msg), client_post = post\<rparr>"

definition always_ok :: "nat \<Rightarrow> ParsedEmailPayload \<Rightarrow> http_outcome" where
  "always_ok n payload = Response 200 (JObj [(''message'', JStr ''Email forwarded successfully!'')])"

definition envelope_from_alice :: envelope where
  "envelope_from_alice = \<lparr>mail_from = Some ''alice@example.com'', rcpt_tos = [''bob@example.org'', ''carol@example.org''],
                          envelope_content = []\<rparr>"

definition second_fails :: "nat \<Rightarrow> ParsedEmailPayload \<Rightarrow> http_outcome" where
  "second_fails n payload =
     (if n = 1 then RequestError ''connection refused''
      else Response 200 (JObj [(''message'', JStr ''Email forwarded successfully!'')]))"

definition all_message :: message where
  "all_message = Leaf [(''Subject'', ''Hello''), (''X-Brityworks-Account'', ''aLl'')] None
                      [104, 105]"


definition forwarding_all_message :: message where
  "forwarding_all_message =
     Multipart [(''Subject'', ''Fwd''), (''X-Brityworks-Account'', ''ALL''),
                (''Content-Type'', ''multipart/mixed'')]
               None [inline_part, forwarded_part]"

definition shouting_part :: message where
  "shouting_part = Leaf [(''Content-Type'', ''text/plain''),
                         (''Content-Disposition'', ''ATTACHMENT; filename=a.txt'')]
                        (Some ''a.txt'') [97]"

definition inline_named_part :: message where
  "inline_named_part = Leaf [(''Content-Type'', ''text/plain''),
                             (''Content-Disposition'', ''inline; filename=attachment.txt'')]
                            (Some ''attachment.txt'') [97]"





section \<open>Selecting the active accounts\<close>

lemma has_key_iff: "has_key d k \<longleftrightarrow> k \<in> fst ` set d"
  by (simp add: has_key_def)

text \<open>
  C4.  \<^verbatim>\<open>set_selected_accounts\<close> with the empty list selects every configured
  identifier, in the order of the dictionary.  With a non-empty list it selects exactly
  the configured identifiers of that list (in the order given) when there is one, and
  otherwise reports failure and leaves the manager as it was.
\<close>

theorem set_selected_accounts_spec:
  "set_selected_accounts self [] = (True, self\<lparr>selected_accounts := map fst (accounts self)\<rparr>)
   \<and> (ids \<noteq> [] \<and> (\<exists>i \<in> set ids. has_key (accounts self) i) \<longrightarrow>
        set_selected_accounts self ids =
          (True, self\<lparr>selected_accounts := filter (has_key (accounts self)) ids\<rparr>)
        \<and> set (selected_accounts (snd (set_selected_accounts self ids)))
            = set ids \<inter> fst ` set (accounts self))
   \<and> (ids \<noteq> [] \<and> (\<forall>i \<in> set ids. \<not> has_key (accounts self) i) \<longrightarrow>
        set_selected_accounts self ids = (False, self))"
proof (intro conjI impI)
  show "set_selected_accounts self [] = (True, self\<lparr>selected_accounts := map fst (accounts self)\<rparr>)"
    by (simp add: set_selected_accounts_def)
next
  assume a: "ids \<noteq> [] \<and> (\<exists>i \<in> set ids. has_key (accounts self) i)"
  then have ne: "filter (has_key (accounts self)) ids \<noteq> []"
    by (auto simp: filter_empty_conv)
  with a show eq: "set_selected_accounts self ids =
      (True, self\<lparr>selected_accounts := filter (has_key (accounts self)) ids\<rparr>)"
    by (simp add: set_selected_accounts_def Let_def)
  show "set (selected_accounts (snd (set_selected_accounts self ids)))
            = set ids \<inter> fst ` set (accounts self)"
    by (auto simp: eq has_key_iff)
next
  assume a: "ids \<noteq> [] \<and> (\<forall>i \<in> set ids. \<not> has_key (accounts self) i)"
  then have "filter (has_key (accounts self)) ids = []"
    by (auto simp: filter_empty_conv)
  with a show "set_selected_accounts self ids = (False, self)"
    by (simp add: set_selected_accounts_def Let_def)
qed

theorem set_selected_accounts_spec_witness:
  "set_selected_accounts registry_ab [] = (True, registry_ab)
   \<and> set_selected_accounts registry_ab [''zz'', ''b''] = (True, registry_ab\<lparr>selected_accounts := [''b'']\<rparr>)
   \<and> set_selected_accounts registry_ab [''zz''] = (False, registry_ab)"
proof -
  have h1: "[''zz'', ''b''] \<noteq> [] \<and> (\<exists>i \<in> set [''zz'', ''b'']. has_key (accounts registry_ab) i)"
    by code_simp
  have h2: "[''zz''] \<noteq> [] \<and> (\<forall>i \<in> set [''zz'']. \<not> has_key (accounts registry_ab) i)"
    by code_simp
  have f: "filter (has_key (accounts registry_ab)) [''zz'', ''b''] = [''b'']"
    by code_simp
  have a: "registry_ab\<lparr>selected_accounts := map fst (accounts registry_ab)\<rparr> = registry_ab"
    by code_simp
  note t = set_selected_accounts_spec [of registry_ab "[''zz'', ''b'']"]
  note u = set_selected_accounts_spec [of registry_ab "[''zz'']"]
  have c1: "set_selected_accounts registry_ab [] = (True, registry_ab)"
    using conjunct1 [OF t] unfolding a .
  have c2: "set_selected_accounts registry_ab [''zz'', ''b''] = (True, registry_ab\<lparr>selected_accounts := [''b'']\<rparr>)"
    using conjunct1 [OF mp [OF conjunct1 [OF conjunct2 [OF t]] h1]] unfolding f .
  have c3: "set_selected_accounts registry_ab [''zz''] = (False, registry_ab)"
    using mp [OF conjunct2 [OF conjunct2 [OF u]] h2] .
  from c1 c2 c3 show ?thesis by blast
qed

section \<open>Resolution\<close>

lemma is_space_lower_char: "is_space (lower_char c) = is_space c"
  by (auto simp: is_space_def lower_char_def Let_def)

lemma ascii_strip_lower_commute: "ascii_strip (ascii_lower s) = ascii_lower (ascii_strip s)"
proof -
  have comp: "is_space \<circ> lower_char = is_space"
    by (rule ext) (simp add: is_space_lower_char)
  show ?thesis
    by (simp add: ascii_strip_def ascii_lower_def dropWhile_map rev_map comp)
qed

lemma match_email_Some:
  "match_email py d n ks = Some a \<Longrightarrow>
     (\<exists>k \<in> set ks. map_of d k = Some a) \<and> str_strip py (str_lower py (email a)) = n"
  by (induction ks) (auto split: option.splits if_splits)

lemma match_email_finds:
  "k \<in> set ks \<Longrightarrow> map_of d k = Some a \<Longrightarrow> str_strip py (str_lower py (email a)) = n \<Longrightarrow>
     \<exists>a'. match_email py d n ks = Some a'"
  by (induction ks) (auto split: option.splits)

lemma get_selected_account_active:
  "get_selected_account py am i s = Some a \<Longrightarrow> \<exists>k \<in> set (selected_accounts am). map_of (accounts am) k = Some a"
  by (auto simp: get_selected_account_def get_account_by_email_def
           split: if_splits option.splits list.splits dest: match_email_Some)

lemma get_all_selected_accounts_active:
  "a \<in> set (get_all_selected_accounts am) \<Longrightarrow> \<exists>k \<in> set (selected_accounts am). map_of (accounts am) k = Some a"
  by (auto simp: get_all_selected_accounts_def List.map_filter_def)

lemma active_subset_lookup:
  "active_subset am \<Longrightarrow> k \<in> set (selected_accounts am) \<Longrightarrow> \<exists>a. map_of (accounts am) k = Some a"
proof -
  assume "active_subset am" "k \<in> set (selected_accounts am)"
  then have "k \<in> fst ` set (accounts am)" by (auto simp: active_subset_def)
  then have "map_of (accounts am) k \<noteq> None" by (simp add: map_of_eq_None_iff)
  then show ?thesis by blast
qed

text \<open>
  C3, as the code has it.  An explicit identifier that is not the empty string decides
  the resolution alone, whatever the sender is: when it is selected the account stored
  under it is returned, and when it is not, nothing is.  The empty string counts as no
  identifier (\<^verbatim>\<open>if account_id:\<close>), and then the sender and the fallback are tried.
\<close>

theorem explicit_id_resolution:
  assumes "X \<noteq> []" and "active_subset am"
  shows "(X \<in> set (selected_accounts am) \<longrightarrow>
            (\<exists>a. get_selected_account py am (Some X) s = Some a \<and> map_of (accounts am) X = Some a))
       \<and> (X \<notin> set (selected_accounts am) \<longrightarrow> get_selected_account py am (Some X) s = None)"
  using assms active_subset_lookup [of am X]
  by (auto simp: get_selected_account_def)

theorem explicit_id_resolution_witness:
  "''b'' \<noteq> [] \<and> active_subset registry_ab \<and> ''b'' \<in> set (selected_accounts registry_ab)
   \<and> get_selected_account ascii_str registry_ab (Some ''b'') (Some ''a@x.com'') = Some acct_b
   \<and> get_selected_account ascii_str registry_ab None (Some ''a@x.com'') = Some acct_a
   \<and> ''zz'' \<notin> set (selected_accounts registry_ab)
   \<and> get_selected_account ascii_str registry_ab (Some ''zz'') (Some ''a@x.com'') = None"
proof -
  have h1: "''b'' \<noteq> []" and h1': "''zz'' \<noteq> []" by simp_all
  have h2: "active_subset registry_ab" by code_simp
  have m: "''b'' \<in> set (selected_accounts registry_ab)" by code_simp
  have n: "''zz'' \<notin> set (selected_accounts registry_ab)" by code_simp
  have l: "map_of (accounts registry_ab) ''b'' = Some acct_b" by code_simp
  have o: "get_selected_account ascii_str registry_ab None (Some ''a@x.com'') = Some acct_a" by code_simp
  from mp [OF conjunct1 [OF explicit_id_resolution [OF h1 h2, where py = ascii_str and s = "Some ''a@x.com''"]] m] l
  have c1: "get_selected_account ascii_str registry_ab (Some ''b'') (Some ''a@x.com'') = Some acct_b"
    by auto
  from mp [OF conjunct2 [OF explicit_id_resolution [OF h1' h2, where py = ascii_str and s = "Some ''a@x.com''"]] n]
  have c2: "get_selected_account ascii_str registry_ab (Some ''zz'') (Some ''a@x.com'') = None" .
  from h1 h2 m n o c1 c2 show ?thesis by blast
qed

text \<open>
  The empty identifier is not selected, and yet the resolution returns an account: the
  one whose address matches the sender.
\<close>

theorem empty_explicit_id_counterexample:
  "'''' \<notin> set (selected_accounts registry_ab)
   \<and> get_selected_account ascii_str registry_ab (Some '''') (Some ''b@x.com'') = Some acct_b"
  by code_simp

text \<open>
  C9, as the code has it.  Whatever the library's \<^verbatim>\<open>lower\<close> and \<^verbatim>\<open>strip\<close> do,
  two senders that are not empty and are equal once lowercased and trimmed resolve to
  the same account, through \<^verbatim>\<open>get_account_by_email\<close> and through
  \<^verbatim>\<open>get_selected_account\<close>; and a selected account whose stored address is equal
  to the sender once both are lowercased and trimmed makes the search succeed.  The
  empty sender is refused before any comparison (\<^verbatim>\<open>if not sender_email\<close>).
\<close>

theorem sender_resolution_normalised:
  assumes "s \<noteq> []" and "s' \<noteq> []"
    and "str_strip py (str_lower py s) = str_strip py (str_lower py s')"
  shows "get_account_by_email py am (Some s) = get_account_by_email py am (Some s')
       \<and> get_selected_account py am None (Some s) = get_selected_account py am None (Some s')
       \<and> (\<forall>k \<in> set (selected_accounts am). \<forall>a. map_of (accounts am) k = Some a
             \<and> str_strip py (str_lower py (email a)) = str_strip py (str_lower py s)
           \<longrightarrow> (\<exists>a'. get_account_by_email py am (Some s) = Some a'
                      \<and> str_strip py (str_lower py (email a')) = str_strip py (str_lower py s)))"
proof -
  from assms have e: "get_account_by_email py am (Some s) = get_account_by_email py am (Some s')"
    by (simp add: get_account_by_email_def)
  with assms(1,2) have g: "get_selected_account py am None (Some s) = get_selected_account py am None (Some s')"
    by (simp add: get_selected_account_def)
  have m: "\<exists>a'. get_account_by_email py am (Some s) = Some a'
                \<and> str_strip py (str_lower py (email a')) = str_strip py (str_lower py s)"
    if "k \<in> set (selected_accounts am)" "map_of (accounts am) k = Some a"
       "str_strip py (str_lower py (email a)) = str_strip py (str_lower py s)" for k a
  proof -
    from match_email_finds [OF that]
    obtain a' where a': "match_email py (accounts am) (str_strip py (str_lower py s)) (selected_accounts am) = Some a'"
      by blast
    from match_email_Some [OF a']
    have "str_strip py (str_lower py (email a')) = str_strip py (str_lower py s)"
      by blast
    with a' assms(1) show ?thesis
      by (simp add: get_account_by_email_def)
  qed
  from e g m show ?thesis by blast
qed

theorem sender_resolution_normalised_witness:
  "'' Foo@Bar.com '' \<noteq> [] \<and> ''foo@bar.com'' \<noteq> []
   \<and> str_strip ascii_str (str_lower ascii_str '' Foo@Bar.com '')
       = str_strip ascii_str (str_lower ascii_str ''foo@bar.com'')
   \<and> str_lower ascii_str (str_strip ascii_str '' Foo@Bar.com '')
       = str_lower ascii_str (str_strip ascii_str ''foo@bar.com'')
   \<and> get_account_by_email ascii_str registry_foo (Some '' Foo@Bar.com '') = Some acct_foo
   \<and> get_account_by_email ascii_str registry_foo (Some ''foo@bar.com'') = Some acct_foo
   \<and> get_selected_account ascii_str registry_foo None (Some ''foo@bar.com'') = Some acct_foo
   \<and> email acct_foo = ''FOO@bar.COM  ''"
proof -
  have h1: "'' Foo@Bar.com '' \<noteq> []" and h2: "''foo@bar.com'' \<noteq> []" by simp_all
  have h3: "str_strip ascii_str (str_lower ascii_str '' Foo@Bar.com '')
       = str_strip ascii_str (str_lower ascii_str ''foo@bar.com'')" by code_simp
  have o: "str_lower ascii_str (str_strip ascii_str '' Foo@Bar.com '')
       = str_lower ascii_str (str_strip ascii_str ''foo@bar.com'')" by code_simp
  have v: "get_account_by_email ascii_str registry_foo (Some '' Foo@Bar.com '') = Some acct_foo"
    by code_simp
  have w: "get_selected_account ascii_str registry_foo None (Some '' Foo@Bar.com '') = Some acct_foo"
    by code_simp
  have e: "email acct_foo = ''FOO@bar.COM  ''" by code_simp
  note t = sender_resolution_normalised [OF h1 h2 h3, where am = registry_foo]
  from conjunct1 [OF t] v
  have c1: "get_account_by_email ascii_str registry_foo (Some ''foo@bar.com'') = Some acct_foo" by simp
  from conjunct1 [OF conjunct2 [OF t]] w
  have c2: "get_selected_account ascii_str registry_foo None (Some ''foo@bar.com'') = Some acct_foo" by simp
  show ?thesis by (intro conjI h1 h2 h3 o v c1 c2 e)
qed

text \<open>
  A blank and the empty string are equal once lowercased and trimmed, but only the blank
  is compared with the stored addresses.
\<close>

theorem empty_sender_counterexample:
  "str_strip ascii_str (str_lower ascii_str '' '') = str_strip ascii_str (str_lower ascii_str '''')
   \<and> get_account_by_email ascii_str registry_blank (Some '' '') = Some acct_blank
   \<and> get_account_by_email ascii_str registry_blank (Some '''') = None
   \<and> get_selected_account ascii_str registry_blank None (Some '' '') = Some acct_blank
   \<and> get_selected_account ascii_str registry_blank None (Some '''') = Some acct_a
   \<and> acct_blank \<noteq> acct_a"
  by code_simp

section \<open>Creating, updating and deleting accounts\<close>

lemma update_absent: "k \<notin> fst ` set al \<Longrightarrow> AList.update k v al = al @ [(k, v)]"
  by (induction al) auto

lemma length_delete_present:
  "distinct (map fst al) \<Longrightarrow> k \<in> fst ` set al \<Longrightarrow> Suc (length (AList.delete k al)) = length al"
proof (induction al)
  case Nil
  then show ?case by simp
next
  case (Cons p al)
  show ?case
  proof (cases "fst p = k")
    case True
    with Cons.prems(1) have "k \<notin> fst ` set al" by auto
    with True show ?thesis by (cases p) simp
  next
    case False
    with Cons show ?thesis by (cases p) auto
  qed
qed

lemma keys_delete: "fst ` set (AList.delete k al) = fst ` set al - {k}"
  by (induction al) auto

lemma create_account_run:
  assumes "account_manager w = Some am" and "\<not> has_key (accounts am) (account_id acct)"
  shows "create_account w acct =
     (if writable (store w)
      then Inr (JObj [(''message'', JStr ''Account created successfully''),
                      (''account_id'', JStr (account_id acct))])
      else Inl (HTTPException 500 ''Failed to persist account configuration''),
      \<lparr>account_manager = Some (am\<lparr>accounts := accounts am @ [(account_id acct, acct)]\<rparr>),
       store = (if writable (store w)
                then (store w)\<lparr>config_file := Some (map snd (accounts am) @ [acct])\<rparr>
                else store w)\<rparr>)"
  using assms
  by (simp add: create_account_def persist_def save_accounts_def Let_def has_key_iff update_absent)

text \<open>
  C8.  When the store cannot be written, creating an account that is not configured yet
  is answered with the error 500 `Failed to persist account configuration`, and still
  the account is in the manager afterwards, added at the end of the dictionary: the
  lookup by its identifier finds it and the endpoint \<^verbatim>\<open>GET /accounts/ID\<close> answers
  for it.  The selected list and the file on disk are as before.
\<close>

theorem create_account_persistence_failure:
  assumes "account_manager w = Some am"
    and "\<not> has_key (accounts am) (account_id acct)"
    and "\<not> writable (store w)"
  shows "fst (create_account w acct) = Inl (HTTPException 500 ''Failed to persist account configuration'')
       \<and> (\<exists>am'. account_manager (snd (create_account w acct)) = Some am'
                 \<and> map_of (accounts am') (account_id acct) = Some acct
                 \<and> accounts am' = accounts am @ [(account_id acct, acct)]
                 \<and> selected_accounts am' = selected_accounts am)
       \<and> store (snd (create_account w acct)) = store w
       \<and> (\<exists>body. get_account (snd (create_account w acct)) (account_id acct) = Inr body)"
proof -
  from assms(2) have "map_of (accounts am) (account_id acct) = None"
    by (simp add: has_key_iff map_of_eq_None_iff)
  then have m: "map_of (accounts am @ [(account_id acct, acct)]) (account_id acct) = Some acct"
    by (simp add: map_add_def)
  show ?thesis
    using assms(3) m
    by (simp add: create_account_run [OF assms(1,2)] get_account_def)
qed

theorem create_account_persistence_failure_witness:
  "account_manager world_ab_readonly = Some registry_ab
   \<and> \<not> has_key (accounts registry_ab) (account_id acct_c)
   \<and> \<not> writable (store world_ab_readonly)
   \<and> fst (create_account world_ab_readonly acct_c)
        = Inl (HTTPException 500 ''Failed to persist account configuration'')
   \<and> account_manager (snd (create_account world_ab_readonly acct_c))
        = Some (registry_ab\<lparr>accounts := [(''a'', acct_a), (''b'', acct_b), (''c'', acct_c)]\<rparr>)
   \<and> config_file (store (snd (create_account world_ab_readonly acct_c))) = Some [acct_a, acct_b]"
proof -
  have h1: "account_manager world_ab_readonly = Some registry_ab" by code_simp
  have h2: "\<not> has_key (accounts registry_ab) (account_id acct_c)" by code_simp
  have h3: "\<not> writable (store world_ab_readonly)" by code_simp
  have s: "config_file (store world_ab_readonly) = Some [acct_a, acct_b]" by code_simp
  have r: "registry_ab\<lparr>accounts := [(''a'', acct_a), (''b'', acct_b), (''c'', acct_c)]\<rparr>
            = \<lparr>accounts = accounts registry_ab @ [(account_id acct_c, acct_c)],
               selected_accounts = selected_accounts registry_ab\<rparr>"
    by code_simp
  note t = create_account_persistence_failure [OF h1 h2 h3]
  from t obtain am' where am': "account_manager (snd (create_account world_ab_readonly acct_c)) = Some am'"
      "accounts am' = accounts registry_ab @ [(account_id acct_c, acct_c)]"
      "selected_accounts am' = selected_accounts registry_ab"
    by blast
  then have "am' = \<lparr>accounts = accounts registry_ab @ [(account_id acct_c, acct_c)],
               selected_accounts = selected_accounts registry_ab\<rparr>"
    by simp
  with am'(1) r have c2: "account_manager (snd (create_account world_ab_readonly acct_c))
        = Some (registry_ab\<lparr>accounts := [(''a'', acct_a), (''b'', acct_b), (''c'', acct_c)]\<rparr>)"
    by simp
  from t s have c3: "config_file (store (snd (create_account world_ab_readonly acct_c))) = Some [acct_a, acct_b]"
    by simp
  from t have c1: "fst (create_account world_ab_readonly acct_c)
        = Inl (HTTPException 500 ''Failed to persist account configuration'')" by blast
  from h1 h2 h3 c1 c2 c3 show ?thesis by blast
qed

lemma length_update_present:
  "k \<in> fst ` set al \<Longrightarrow> length (AList.update k v al) = length al"
  by (induction al) auto

lemma account_rebuild:
  "\<lparr>account_id = account_id a, email = email a, display_name = display_name a,
    cookies = cookies a, headers = headers a\<rparr> = (a :: account)"
  by simp

lemma update_account_run:
  assumes "account_manager w = Some am" and "has_key (accounts am) oldId"
    and "account_id acct \<noteq> oldId"
  shows "update_account w oldId acct =
     (if writable (store w)
      then Inr (JObj [(''message'', JStr ''Account updated successfully''),
                      (''account_id'', JStr (account_id acct))])
      else Inl (HTTPException 500 ''Failed to persist account configuration''),
      \<lparr>account_manager = Some
         \<lparr>accounts = AList.update (account_id acct) acct (AList.delete oldId (accounts am)),
          selected_accounts =
            (if oldId \<in> set (selected_accounts am)
             then remove1 oldId (selected_accounts am) @ [account_id acct]
             else selected_accounts am)\<rparr>,
       store = (if writable (store w)
                then (store w)\<lparr>config_file := Some (map snd
                       (AList.update (account_id acct) acct (AList.delete oldId (accounts am))))\<rparr>
                else store w)\<rparr>)"
  using assms
  by (cases am) (simp add: update_account_def persist_def save_accounts_def Let_def account_rebuild)

text \<open>
  C10, as the code has it.  Updating the configured account \<open>oldId\<close> with a record whose identifier is
  another configured identifier raises no conflict: the only error the call can end in
  is the failure to persist, and with a writable store it answers ``Account updated
  successfully''.  In the manager the record given replaces the one stored under its
  identifier, \<open>oldId\<close> is gone, the dictionary has one entry less, and when \<open>oldId\<close>
  was selected its first occurrence is taken out of the selected list and the new
  identifier is put at the end.
\<close>

theorem update_account_onto_existing_id:
  assumes "account_manager w = Some am"
    and "dict_wf (accounts am)"
    and "has_key (accounts am) oldId"
    and "has_key (accounts am) (account_id acct)"
    and "account_id acct \<noteq> oldId"
  shows "(writable (store w) \<longrightarrow>
           fst (update_account w oldId acct) =
             Inr (JObj [(''message'', JStr ''Account updated successfully''),
                        (''account_id'', JStr (account_id acct))]))
       \<and> (\<not> writable (store w) \<longrightarrow>
           fst (update_account w oldId acct) =
             Inl (HTTPException 500 ''Failed to persist account configuration''))
       \<and> (\<exists>am'. account_manager (snd (update_account w oldId acct)) = Some am'
                 \<and> map_of (accounts am') (account_id acct) = Some acct
                 \<and> map_of (accounts am') oldId = None
                 \<and> Suc (length (accounts am')) = length (accounts am)
                 \<and> selected_accounts am' =
                     (if oldId \<in> set (selected_accounts am)
                      then remove1 oldId (selected_accounts am) @ [account_id acct]
                      else selected_accounts am))"
proof -
  let ?d = "AList.delete oldId (accounts am)"
  let ?u = "AList.update (account_id acct) acct ?d"
  from assms(4,5) have k: "account_id acct \<in> fst ` set ?d"
    by (simp add: has_key_iff keys_delete)
  have m1: "map_of ?u (account_id acct) = Some acct"
    by (simp add: update_conv')
  from assms(5) have m2: "map_of ?u oldId = None"
    by (simp add: update_conv' delete_conv')
  from k have "length ?u = length ?d"
    by (simp add: length_update_present)
  moreover from assms(2,3) have "Suc (length ?d) = length (accounts am)"
    by (simp add: dict_wf_def has_key_iff length_delete_present)
  ultimately have l: "Suc (length ?u) = length (accounts am)" by simp
  show ?thesis
    using m1 m2 l by (simp add: update_account_run [OF assms(1,3,5)])
qed

theorem update_account_onto_existing_id_witness:
  "account_manager world_ab = Some registry_ab \<and> dict_wf (accounts registry_ab)
   \<and> has_key (accounts registry_ab) ''a'' \<and> has_key (accounts registry_ab) (account_id acct_a_as_b)
   \<and> account_id acct_a_as_b \<noteq> ''a'' \<and> writable (store world_ab)
   \<and> map_of (accounts registry_ab) ''b'' = Some acct_b
   \<and> update_account world_ab ''a'' acct_a_as_b =
       (Inr (JObj [(''message'', JStr ''Account updated successfully''), (''account_id'', JStr ''b'')]),
        \<lparr>account_manager = Some \<lparr>accounts = [(''b'', acct_a_as_b)], selected_accounts = [''b'', ''b'']\<rparr>,
         store = \<lparr>writable = True, config_file = Some [acct_a_as_b]\<rparr>\<rparr>)"
proof -
  have h1: "account_manager world_ab = Some registry_ab" by code_simp
  have h2: "dict_wf (accounts registry_ab)" by code_simp
  have h3: "has_key (accounts registry_ab) ''a''" by code_simp
  have h4: "has_key (accounts registry_ab) (account_id acct_a_as_b)" by code_simp
  have h5: "account_id acct_a_as_b \<noteq> ''a''" by code_simp
  have h6: "writable (store world_ab)" by code_simp
  have o: "map_of (accounts registry_ab) ''b'' = Some acct_b" by code_simp
  have i: "account_id acct_a_as_b = ''b''" by code_simp
  have s: "snd (update_account world_ab ''a'' acct_a_as_b) =
        \<lparr>account_manager = Some \<lparr>accounts = [(''b'', acct_a_as_b)], selected_accounts = [''b'', ''b'']\<rparr>,
         store = \<lparr>writable = True, config_file = Some [acct_a_as_b]\<rparr>\<rparr>"
    by code_simp
  from mp [OF conjunct1 [OF update_account_onto_existing_id [OF h1 h2 h3 h4 h5]] h6] i
  have "fst (update_account world_ab ''a'' acct_a_as_b) =
          Inr (JObj [(''message'', JStr ''Account updated successfully''), (''account_id'', JStr ''b'')])"
    by simp
  with s have "update_account world_ab ''a'' acct_a_as_b =
       (Inr (JObj [(''message'', JStr ''Account updated successfully''), (''account_id'', JStr ''b'')]),
        \<lparr>account_manager = Some \<lparr>accounts = [(''b'', acct_a_as_b)], selected_accounts = [''b'', ''b'']\<rparr>,
         store = \<lparr>writable = True, config_file = Some [acct_a_as_b]\<rparr>\<rparr>)"
    by (simp add: prod_eq_iff)
  with h1 h2 h3 h4 h5 h6 o show ?thesis by blast
qed

text \<open>
  The same update on a store that cannot be written ends in the error 500: the call
  does not succeed, although it is such an update.
\<close>

theorem update_account_unwritable_counterexample:
  "account_manager world_ab_readonly = Some registry_ab
   \<and> has_key (accounts registry_ab) ''a''
   \<and> has_key (accounts registry_ab) (account_id acct_a_as_b)
   \<and> account_id acct_a_as_b \<noteq> ''a''
   \<and> fst (update_account world_ab_readonly ''a'' acct_a_as_b)
       = Inl (HTTPException 500 ''Failed to persist account configuration'')"
  by code_simp

section \<open>The selected list and the configured accounts\<close>

lemma delete_account_run:
  assumes "account_manager w = Some am" and "has_key (accounts am) aid"
  shows "account_manager (snd (delete_account w aid)) =
     Some \<lparr>accounts = AList.delete aid (accounts am),
           selected_accounts = remove1 aid (selected_accounts am)\<rparr>"
  using assms
  by (cases am) (simp add: delete_account_def persist_def save_accounts_def Let_def remove1_idem)

lemma set_selected_accounts_keeps_subset:
  "active_subset am \<Longrightarrow> active_subset (snd (set_selected_accounts am ids))"
  by (auto simp: set_selected_accounts_def active_subset_def Let_def has_key_iff)

lemma set_selected_accounts_makes_subset:
  "fst (set_selected_accounts am ids) \<Longrightarrow> active_subset (snd (set_selected_accounts am ids))"
  by (auto simp: set_selected_accounts_def active_subset_def Let_def has_key_iff split: if_splits)

lemma select_account_keeps_subset:
  "account_manager w = Some am \<Longrightarrow> active_subset am \<Longrightarrow>
   \<exists>am'. account_manager (snd (select_account w aid)) = Some am' \<and> active_subset am'
          \<and> accounts am' = accounts am"
  by (auto simp: select_account_def active_subset_def Let_def has_key_iff)

lemma deselect_account_keeps_subset:
  "account_manager w = Some am \<Longrightarrow> active_subset am \<Longrightarrow>
   \<exists>am'. account_manager (snd (deselect_account w aid)) = Some am' \<and> active_subset am'
          \<and> accounts am' = accounts am"
  by (auto simp: deselect_account_def active_subset_def Let_def has_key_iff dest: notin_set_remove1)

lemma create_account_keeps_subset:
  "account_manager w = Some am \<Longrightarrow> active_subset am \<Longrightarrow>
   \<exists>am'. account_manager (snd (create_account w acct)) = Some am' \<and> active_subset am'"
  by (cases "has_key (accounts am) (account_id acct)")
     (auto simp: create_account_run active_subset_def, simp add: create_account_def)

lemma delete_account_keeps_subset:
  assumes "account_manager w = Some am" and "active_subset am"
    and "distinct (selected_accounts am)"
  shows "\<exists>am'. account_manager (snd (delete_account w aid)) = Some am' \<and> active_subset am'
          \<and> distinct (selected_accounts am')"
proof (cases "has_key (accounts am) aid")
  case True
  from assms(2,3) show ?thesis
    by (auto simp: delete_account_run [OF assms(1) True] active_subset_def keys_delete)
next
  case False
  with assms show ?thesis by (simp add: delete_account_def)
qed

lemma update_account_keeps_subset:
  assumes "account_manager w = Some am" and "active_subset am"
    and "distinct (selected_accounts am)"
  shows "\<exists>am'. account_manager (snd (update_account w aid acct)) = Some am' \<and> active_subset am'"
proof (cases "has_key (accounts am) aid")
  case False
  with assms show ?thesis by (simp add: update_account_def)
next
  case True
  show ?thesis
  proof (cases "account_id acct = aid")
    case same: True
    from assms True same show ?thesis
      by (cases am)
         (auto simp: update_account_def persist_def save_accounts_def Let_def
                    active_subset_def dom_update)
  next
    case False
    from assms(2,3) show ?thesis
      by (auto simp: update_account_run [OF assms(1) True False] active_subset_def
                     dom_update keys_delete)
  qed
qed

lemma dict_wf_kept:
  assumes "account_manager w = Some am" and "dict_wf (accounts am)"
  shows "\<exists>am'. account_manager (snd (create_account w acct)) = Some am' \<and> dict_wf (accounts am')"
    and "\<exists>am'. account_manager (snd (update_account w aid acct)) = Some am' \<and> dict_wf (accounts am')"
    and "\<exists>am'. account_manager (snd (delete_account w aid)) = Some am' \<and> dict_wf (accounts am')"
  using assms
  by (auto simp: create_account_def update_account_def delete_account_def persist_def
                 save_accounts_def Let_def dict_wf_def distinct_update distinct_delete)

text \<open>
  C7 on the code.  The registry with the accounts \<open>a\<close> and \<open>b\<close>, both selected once,
  has every selected identifier configured.  Renaming \<open>a\<close> to \<open>b\<close> leaves the one
  account \<open>b\<close> and the selected list \<open>[b, b]\<close>; deleting \<open>b\<close> then takes the account
  away and only the first \<open>b\<close> out of the selected list, which is left naming an
  account that is not configured.
\<close>

theorem rename_then_delete_breaks_active_subset:
  "active_subset registry_ab \<and> distinct (selected_accounts registry_ab)
   \<and> account_manager (snd (update_account world_ab ''a'' acct_a_as_b))
       = Some \<lparr>accounts = [(''b'', acct_a_as_b)], selected_accounts = [''b'', ''b'']\<rparr>
   \<and> active_subset \<lparr>accounts = [(''b'', acct_a_as_b)], selected_accounts = [''b'', ''b'']\<rparr>
   \<and> account_manager (snd (delete_account (snd (update_account world_ab ''a'' acct_a_as_b)) ''b''))
       = Some \<lparr>accounts = [], selected_accounts = [''b'']\<rparr>
   \<and> \<not> active_subset \<lparr>accounts = [], selected_accounts = [''b'']\<rparr>"
  by code_simp

section \<open>Base64\<close>











section \<open>Attachment extraction\<close>


lemma container_payload: "is_multipart p \<Longrightarrow> get_payload_decode p = None"
  by (cases p) simp_all

lemma extract_step_attachment:
  "is_attachment py p \<Longrightarrow>
   extract_attachments py (p # ps) acc =
     (case get_payload_decode p of
        None \<Rightarrow> Inl TypeError
      | Some b \<Rightarrow> extract_attachments py ps
                   (acc @ [\<lparr>filename = the (get_filename p), content = b64encode b\<rparr>]))"
  by (simp add: is_attachment_def Let_def)

lemma extract_step_other:
  "\<not> is_attachment py p \<Longrightarrow> extract_attachments py (p # ps) acc = extract_attachments py ps acc"
  by (auto simp: is_attachment_def Let_def)


lemma extract_attachments_container:
  "\<exists>p \<in> set ps. is_attachment py p \<and> is_multipart p \<Longrightarrow> extract_attachments py ps acc = Inl TypeError"
proof (induction ps arbitrary: acc)
  case Nil
  then show ?case by simp
next
  case (Cons p ps)
  show ?case
  proof (cases "is_attachment py p")
    case False
    with Cons show ?thesis by (auto simp: extract_step_other simp del: extract_attachments.simps)
  next
    case True
    show ?thesis
    proof (cases "is_multipart p")
      case True
      with \<open>is_attachment py p\<close> show ?thesis
        by (simp add: extract_step_attachment container_payload del: extract_attachments.simps)
    next
      case False
      with Cons.prems have "\<exists>q \<in> set ps. is_attachment py q \<and> is_multipart q" by auto
      with Cons.IH have "\<And>acc. extract_attachments py ps acc = Inl TypeError" by blast
      with \<open>is_attachment py p\<close> show ?thesis
        by (simp add: extract_step_attachment del: extract_attachments.simps split: option.splits)
    qed
  qed
qed

lemma walk_self: "m \<in> set (walk m)"
  by (cases m) simp_all

lemma walk_subparts: "p \<in> set (subparts (Multipart h f ps)) \<Longrightarrow> set (walk p) \<subseteq> set (walk (Multipart h f ps))"
  by auto

text \<open>
  Two dispositions on which the two readings part: the code's test looks for the
  lower-case text \<open>attachment\<close> anywhere in the header.
\<close>

lemma disposition_readings_differ:
  "indicates_attachment ascii_str shouting_part \<and> \<not> is_attachment ascii_str shouting_part
   \<and> \<not> indicates_attachment ascii_str inline_named_part
   \<and> is_attachment ascii_str inline_named_part"
  by code_simp




section \<open>The handler\<close>

lemma send_each_requests:
  "requests (send_each post build accts d) = requests d @ map build accts"
  by (induction accts arbitrary: d) (auto simp: Let_def split: http_outcome.splits)

lemma send_each_success_count:
  "success_count (send_each post build accts d) =
     success_count d
     + length (filter succeeded
         (map (\<lambda>(i, a). post i (build a)) (enumerate (length (requests d)) accts)))"
  by (induction accts arbitrary: d) (auto simp: Let_def split: http_outcome.splits)

lemma send_each_failed_count:
  "failed_count (send_each post build accts d) =
     failed_count d
     + length (filter (\<lambda>r. \<not> succeeded r)
         (map (\<lambda>(i, a). post i (build a)) (enumerate (length (requests d)) accts)))"
  by (induction accts arbitrary: d) (auto simp: Let_def split: http_outcome.splits)

lemma active_subset_all_selected:
  assumes "active_subset am"
  shows "length (get_all_selected_accounts am) = length (selected_accounts am)"
proof -
  have "filter (\<lambda>k. map_of (accounts am) k \<noteq> None) (selected_accounts am) = selected_accounts am"
    using active_subset_lookup [OF assms] by (auto simp: filter_id_conv)
  then show ?thesis
    by (simp add: get_all_selected_accounts_def List.map_filter_def)
qed

lemma handle_DATA_run:
  assumes "message_attachments py (parsestr rt (decode_utf8 rt (envelope_content env))) = Inr atts"
  shows "handle_DATA py rt am env =
     Inr (''250 OK'',
          send_each (client_post rt)
            (fastapi_payload (decode_utf8 rt (envelope_content env)) (effective_recipient env)
               (message_subject py (parsestr rt (decode_utf8 rt (envelope_content env)))) atts)
            (resolved_accounts py am
               (msg_get py (parsestr rt (decode_utf8 rt (envelope_content env))) ''X-Brityworks-Account'')
               (effective_sender env))
            \<lparr>requests = [], success_count = 0, failed_count = 0\<rparr>)"
  using assms by (simp add: handle_DATA_def resolved_accounts_def Let_def)

lemma handle_DATA_replies:
  assumes "message_attachments py (parsestr rt (decode_utf8 rt (envelope_content env))) = Inr atts"
  shows "\<exists>d. handle_DATA py rt am env = Inr (''250 OK'', d)"
  by (simp add: handle_DATA_run [OF assms])

lemma handle_DATA_raises:
  assumes "is_multipart msg" and "p \<in> set (walk msg)" and "is_attachment py p" and "is_multipart p"
    and "parsestr rt (decode_utf8 rt (envelope_content env)) = msg"
  shows "handle_DATA py rt am env = Inl TypeError"
proof -
  from assms(2-4) have "extract_attachments py (walk msg) [] = Inl TypeError"
    by (intro extract_attachments_container) blast
  with assms(1,5) show ?thesis
    by (simp add: handle_DATA_def message_attachments_def Let_def)
qed





text \<open>
  What the handler does with the directive \<open>ALL\<close> once the attachment loop has
  returned: one request for each account that \<^verbatim>\<open>get_all_selected_accounts\<close> returns,
  in that order, whatever the answers to the earlier requests were, and two counters
  that add up to the number of requests.
\<close>

lemma fan_out_after_attachments:
  assumes "parsestr rt (decode_utf8 rt (envelope_content env)) = msg"
    and "msg_get py msg ''X-Brityworks-Account'' = Some directive"
    and "directive \<noteq> []"
    and "str_upper py directive = ''ALL''"
    and "message_attachments py msg = Inr atts"
  shows "\<exists>d. handle_DATA py rt am env = Inr (''250 OK'', d)
       \<and> requests d = map (fastapi_payload (decode_utf8 rt (envelope_content env))
                              (effective_recipient env) (message_subject py msg) atts)
                          (get_all_selected_accounts am)
       \<and> (active_subset am \<longrightarrow> length (requests d) = length (selected_accounts am))
       \<and> success_count d =
           length (filter succeeded
             (map (\<lambda>(i, a). client_post rt i (fastapi_payload (decode_utf8 rt (envelope_content env))
                                               (effective_recipient env) (message_subject py msg) atts a))
                  (enumerate 0 (get_all_selected_accounts am))))
       \<and> success_count d + failed_count d = length (get_all_selected_accounts am)"
proof -
  let ?build = "fastapi_payload (decode_utf8 rt (envelope_content env))
                  (effective_recipient env) (message_subject py msg) atts"
  let ?accts = "get_all_selected_accounts am"
  let ?zero = "\<lparr>requests = [], success_count = 0, failed_count = 0\<rparr>"
  let ?d = "send_each (client_post rt) ?build ?accts ?zero"
  let ?outcomes = "map (\<lambda>(i, a). client_post rt i (?build a)) (enumerate 0 ?accts)"
  from assms(1) assms(5)
  have "message_attachments py (parsestr rt (decode_utf8 rt (envelope_content env))) = Inr atts"
    by simp
  from handle_DATA_run [OF this, of am] assms(1-4)
  have run: "handle_DATA py rt am env = Inr (''250 OK'', ?d)"
    by (simp add: resolved_accounts_def)
  have r: "requests ?d = map ?build ?accts"
    by (simp add: send_each_requests)
  have s: "success_count ?d = length (filter succeeded ?outcomes)"
    by (simp add: send_each_success_count)
  have f: "failed_count ?d = length (filter (\<lambda>r. \<not> succeeded r) ?outcomes)"
    by (simp add: send_each_failed_count)
  have "length (filter succeeded ?outcomes) + length (filter (\<lambda>r. \<not> succeeded r) ?outcomes)
          = length ?outcomes"
    by (rule sum_length_filter_compl)
  with s f have t: "success_count ?d + failed_count ?d = length ?accts"
    by simp
  from r have "length (requests ?d) = length ?accts" by simp
  with active_subset_all_selected
  have i: "active_subset am \<longrightarrow> length (requests ?d) = length (selected_accounts am)"
    by simp
  from run r i s t show ?thesis by blast
qed

text \<open>
  C5 on the code.  Three accounts are selected and the directive is \<open>ALL\<close>, and the
  message forwards another one as an attachment with a file name: the handler ends with
  the \<^verbatim>\<open>TypeError\<close> of the attachment loop, before the first of the three requests.
  Without the attachment the same directive gives the three requests, the second of
  which fails, and the counters 2 and 1.
\<close>

theorem all_directive_forwarded_attachment_raises:
  "msg_get ascii_str forwarding_all_message ''X-Brityworks-Account'' = Some ''ALL''
   \<and> str_upper ascii_str ''ALL'' = ''ALL''
   \<and> active_subset registry_abc \<and> length (selected_accounts registry_abc) = 3
   \<and> length (get_all_selected_accounts registry_abc) = 3
   \<and> handle_DATA ascii_str (runtime_for forwarding_all_message second_fails) registry_abc
        envelope_from_alice = Inl TypeError
   \<and> map sender_email (requests (snd (projr
        (handle_DATA ascii_str (runtime_for all_message second_fails) registry_abc envelope_from_alice))))
       = [''a@x.com'', ''B@x.com '', ''c@x.com'']
   \<and> success_count (snd (projr
        (handle_DATA ascii_str (runtime_for all_message second_fails) registry_abc envelope_from_alice)))
       = 2
   \<and> failed_count (snd (projr
        (handle_DATA ascii_str (runtime_for all_message second_fails) registry_abc envelope_from_alice)))
       = 1"
  by code_simp

text \<open>
  C2 on the code.  A message that forwards another one as an attachment has a
  \<open>message/rfc822\<close> part with a file name; that part is a container, its decoded
  payload is \<^verbatim>\<open>None\<close>, and the handler ends with the \<^verbatim>\<open>TypeError\<close> of
  \<^verbatim>\<open>b64encode\<close> instead of a reply.
\<close>

theorem forwarded_attachment_raises:
  "handle_DATA ascii_str (runtime_for forwarding_message always_ok) registry_ab envelope_from_alice
     = Inl TypeError"
  by code_simp

end
